theory Spec2Isabelle
  imports Complex_Main
begin

section \<open>Data model of \<open>model.cc\<close>\<close>

text \<open>
  The C++ type \<open>real\<close> is modelled by the HOL type \<^typ>\<open>real\<close>: arithmetic is exact,
  and the rounding, the infinities and the NaN of floating point are not modelled. The
  32 and 64 bit integers of the source are modelled by \<^typ>\<open>int\<close>, without overflow,
  and a \<open>std::vector\<close> by a list. A read or a write outside a vector, a failed
  \<open>assert\<close>, a vector of impossible size, a division by zero and a square root of a
  negative number are values of the type \<open>error\<close>.
\<close>

datatype error = LengthError | OutOfBounds | AssertionFailed | DivisionByZero | NotANumber

text \<open>
  The tree node, with the fields that \<open>model.cc\<close> reads and writes (\<open>model.h\<close> declares
  it); \<open>-1\<close> in \<open>parent\<close>, \<open>left\<close> or \<open>right\<close> means none. The field \<open>count\<close> takes the
  64 bit counts of the frequency table and the constant \<open>1e15\<close>.
\<close>

record Node =
  parent :: int
  left :: int
  right :: int
  count :: int
  binary :: bool

definition in_range :: "'a list \<Rightarrow> int \<Rightarrow> bool" where
  "in_range xs i \<longleftrightarrow> 0 \<le> i \<and> i < int (length xs)"

text \<open>Running a fallible loop body over the values of the loop variable, in order.\<close>

fun for_loop :: "nat list \<Rightarrow> (nat \<Rightarrow> 's \<Rightarrow> error + 's) \<Rightarrow> 's \<Rightarrow> error + 's" where
  "for_loop [] body s = Inr s"
| "for_loop (i # is) body s =
     (case body i s of Inl e \<Rightarrow> Inl e | Inr s' \<Rightarrow> for_loop is body s')"

section \<open>\<open>Model::buildTree\<close>\<close>

text \<open>\<open>std::vector::resize\<close> on a vector of nodes: new nodes are value-initialised.\<close>

definition resize :: "nat \<Rightarrow> Node list \<Rightarrow> Node list" where
  "resize n xs = take n xs @
     replicate (n - length xs) \<lparr>parent = 0, left = 0, right = 0, count = 0, binary = False\<rparr>"

text \<open>The body of the first loop: every field of node \<open>i\<close> is reset; the count is \<open>1e15\<close>.\<close>

definition reset_node :: "nat \<Rightarrow> Node list \<Rightarrow> Node list" where
  "reset_node i tree =
     tree[i := \<lparr>parent = -1, left = -1, right = -1, count = 10 ^ 15, binary = False\<rparr>]"

text \<open>The body of the second loop: \<open>tree[i].count = counts[i]\<close>.\<close>

definition set_count :: "int list \<Rightarrow> nat \<Rightarrow> Node list \<Rightarrow> Node list" where
  "set_count counts i tree = tree[i := (tree ! i)\<lparr>count := counts ! i\<rparr>]"

text \<open>
  One round of the inner loop over \<open>j\<close>: the test
  \<open>leaf >= 0 && tree[leaf].count < tree[node].count\<close> and the choice of \<open>mini[j]\<close>.
  The result is the chosen node with the new values of \<open>leaf\<close> and \<open>node\<close>.
\<close>

definition pick :: "Node list \<Rightarrow> int \<Rightarrow> int \<Rightarrow> error + (int \<times> int \<times> int)" where
  "pick tree leaf node =
     (if leaf \<ge> 0 then
        (if in_range tree leaf \<and> in_range tree node then
           (if count (tree ! nat leaf) < count (tree ! nat node)
            then Inr (leaf, leaf - 1, node)
            else Inr (node, leaf, node + 1))
         else Inl OutOfBounds)
      else Inr (node, leaf, node + 1))"

text \<open>The body of the third loop, for the internal node \<open>i\<close>; the state is \<open>(tree, leaf, node)\<close>.\<close>

definition build_step :: "nat \<Rightarrow> Node list \<times> int \<times> int \<Rightarrow> error + (Node list \<times> int \<times> int)" where
  "build_step i s =
     (case s of (tree, leaf, node) \<Rightarrow>
        (case pick tree leaf node of
           Inl e \<Rightarrow> Inl e
         | Inr (m0, leaf1, node1) \<Rightarrow>
            (case pick tree leaf1 node1 of
               Inl e \<Rightarrow> Inl e
             | Inr (m1, leaf2, node2) \<Rightarrow>
                if \<not> in_range tree m0 \<or> \<not> in_range tree m1 then Inl OutOfBounds
                else
                  let t1 = tree[i := (tree ! i)\<lparr>left := m0\<rparr>];
                      t2 = t1[i := (t1 ! i)\<lparr>right := m1\<rparr>];
                      t3 = t2[i := (t2 ! i)\<lparr>count := count (t2 ! nat m0) + count (t2 ! nat m1)\<rparr>];
                      t4 = t3[nat m0 := (t3 ! nat m0)\<lparr>parent := int i\<rparr>];
                      t5 = t4[nat m1 := (t4 ! nat m1)\<lparr>parent := int i\<rparr>];
                      t6 = t5[nat m1 := (t5 ! nat m1)\<lparr>binary := True\<rparr>]
                  in Inr (t6, leaf2, node2))))"

text \<open>
  The \<open>while\<close> loop that walks from node \<open>j\<close> to the root, appending to \<open>path\<close> and
  \<open>code\<close>. It need not end on an arbitrary node array: not returning is \<open>None\<close>.
\<close>

partial_function (option) walk ::
  "Node list \<Rightarrow> int \<Rightarrow> int \<Rightarrow> int list \<Rightarrow> bool list \<Rightarrow> (error + int list \<times> bool list) option" where
  "walk tree osz j path code =
     (if \<not> in_range tree j then Some (Inl OutOfBounds)
      else if parent (tree ! nat j) \<noteq> -1
        then walk tree osz (parent (tree ! nat j))
               (path @ [parent (tree ! nat j) - osz]) (code @ [binary (tree ! nat j)])
        else Some (Inr (path, code)))"

declare walk.simps [code]

text \<open>The last loop: one path and one code per class, appended to \<open>paths\<close> and \<open>codes\<close>.\<close>

fun paths_loop :: "nat list \<Rightarrow> Node list \<Rightarrow> int \<Rightarrow> int list list \<times> bool list list \<Rightarrow>
    (error + int list list \<times> bool list list) option" where
  "paths_loop [] tree osz pc = Some (Inr pc)"
| "paths_loop (i # is) tree osz pc =
     (case walk tree osz (int i) [] [] of
        None \<Rightarrow> None
      | Some (Inl e) \<Rightarrow> Some (Inl e)
      | Some (Inr (path, code)) \<Rightarrow> paths_loop is tree osz (fst pc @ [path], snd pc @ [code]))"

text \<open>
  The part of the model object that \<open>buildTree\<close> reads and writes: \<open>osz_\<close>, \<open>tree\<close>,
  \<open>paths\<close> and \<open>codes\<close>.
\<close>

record HS =
  osz :: int
  tree :: "Node list"
  paths :: "int list list"
  codes :: "bool list list"

definition buildTree :: "'a HS_scheme \<Rightarrow> int list \<Rightarrow> (error + 'a HS_scheme) option" where
  "buildTree m counts =
     (if 2 * osz m - 1 < 0 then Some (Inl LengthError)
      else
        let n = nat (2 * osz m - 1);
            C = nat (osz m);
            t0 = resize n (tree m);
            t1 = fold reset_node [0..<n] t0
        in if length counts < C then Some (Inl OutOfBounds)
           else
             let t2 = fold (set_count counts) [0..<C] t1
             in (case for_loop [C..<n] build_step (t2, osz m - 1, osz m) of
                   Inl e \<Rightarrow> Some (Inl e)
                 | Inr (t3, leaf, node) \<Rightarrow>
                    (case paths_loop [0..<C] t3 (osz m) (paths m, codes m) of
                       None \<Rightarrow> None
                     | Some (Inl e) \<Rightarrow> Some (Inl e)
                     | Some (Inr (ps, cs)) \<Rightarrow>
                         Some (Inr (m\<lparr>tree := t3, paths := ps, codes := cs\<rparr>)))))"

text \<open>
  The constructor leaves \<open>tree\<close>, \<open>paths\<close> and \<open>codes\<close> empty; \<open>osz_\<close> is the number
  of rows of the output matrix.
\<close>

definition fresh :: "int \<Rightarrow> HS" where
  "fresh C = \<lparr>osz = C, tree = [], paths = [], codes = []\<rparr>"

section \<open>The model object and its collaborators\<close>

type_synonym Vector = "real list"
type_synonym Matrix = "real list list"

text \<open>
  The enumerations and the fields of \<open>args\<close> that \<open>model.cc\<close> reads; \<open>args.h\<close> declares
  them.
\<close>

datatype loss_name = loss_hs | loss_ns | loss_softmax

datatype model_name = model_cbow | model_sg | model_sup

record Args =
  loss :: loss_name
  model :: model_name
  neg :: int

text \<open>
  What \<open>model.cc\<close> takes from outside and this development takes as parameters: the
  global \<open>args\<close>, the functions \<open>utils::sigmoid\<close> and \<open>utils::log\<close>, the constant
  \<open>NEGATIVE_TABLE_SIZE\<close> of \<open>model.h\<close>, the permutation that \<open>std::shuffle\<close> makes with the
  random source of the model, and the heap functions of the standard library on a vector
  of pairs with the comparison \<open>comparePairs\<close>.
\<close>

record Env =
  args :: Args
  utils_sigmoid :: "real \<Rightarrow> real"
  utils_log :: "real \<Rightarrow> real"
  NEGATIVE_TABLE_SIZE :: nat
  shuffle :: "int list \<Rightarrow> int list"
  push_heap :: "(real \<times> int) list \<Rightarrow> (real \<times> int) list"
  pop_heap :: "(real \<times> int) list \<Rightarrow> (real \<times> int) list"
  sort_heap :: "(real \<times> int) list \<Rightarrow> (real \<times> int) list"

text \<open>
  The members of \<open>Model\<close>. The matrices \<open>wi_\<close> and \<open>wo_\<close> are references to two
  different matrices of the caller; the learning rate \<open>lr_\<close> is a static member.
\<close>

record Model = HS +
  wi :: Matrix
  wo :: Matrix
  hidden :: Vector
  "output" :: Vector
  grad :: Vector
  isz :: int
  hsz :: int
  lr :: real
  negpos :: nat
  negatives :: "int list"

text \<open>
  The constructor \<open>Model::Model\<close>. The three vectors it allocates are written before
  they are read in every function of \<open>model.cc\<close>; here they start filled with zeros.
\<close>

definition Model_new :: "Matrix \<Rightarrow> Matrix \<Rightarrow> int \<Rightarrow> real \<Rightarrow> Model" where
  "Model_new wi0 wo0 hsz0 lr0 =
     \<lparr>osz = int (length wo0), tree = [], paths = [], codes = [],
      wi = wi0, wo = wo0, hidden = replicate (nat hsz0) 0, output = replicate (length wo0) 0,
      grad = replicate (nat hsz0) 0, isz = int (length wi0), hsz = hsz0, lr = lr0,
      negpos = 0, negatives = []\<rparr>"

subsection \<open>Vectors and matrices\<close>

text \<open>
  \<open>matrix.h\<close> and \<open>vector.h\<close> are not among the sources; the spec names their primitives
  (row-indexed dot product, scaled row accumulation, elementwise zero and scale,
  matrix-vector multiply). A row outside the matrix is a fault, and the vectors and rows
  that meet in one operation have the same length.
\<close>

text \<open>Modelled from the spec: \<open>Vector::zero\<close>, elementwise zero.\<close>

definition Vector_zero :: "Vector \<Rightarrow> Vector" where
  "Vector_zero v = replicate (length v) 0"

text \<open>Modelled from the spec: \<open>Vector::mul\<close> by a number, elementwise scale.\<close>

definition Vector_mul :: "Vector \<Rightarrow> real \<Rightarrow> Vector" where
  "Vector_mul v a = map (\<lambda>x. x * a) v"

text \<open>Modelled from the spec: the dot product of two vectors.\<close>

definition dot :: "Vector \<Rightarrow> Vector \<Rightarrow> real" where
  "dot u v = sum_list (map2 (*) u v)"

text \<open>Modelled from the spec: \<open>Vector::addRow\<close> with a matrix and a row, row accumulation.\<close>

definition Vector_addRow :: "Vector \<Rightarrow> Matrix \<Rightarrow> int \<Rightarrow> error + Vector" where
  "Vector_addRow v A i =
     (if in_range A i then Inr (map2 (+) v (A ! nat i)) else Inl OutOfBounds)"

text \<open>
  Modelled from the spec: \<open>Vector::addRow\<close> with a matrix, a row and a factor, scaled row
  accumulation.
\<close>

definition Vector_addRow_scaled :: "Vector \<Rightarrow> Matrix \<Rightarrow> int \<Rightarrow> real \<Rightarrow> error + Vector" where
  "Vector_addRow_scaled v A i a =
     (if in_range A i then Inr (map2 (\<lambda>x y. x + a * y) v (A ! nat i)) else Inl OutOfBounds)"

text \<open>Modelled from the spec: \<open>Vector::mul\<close> with a matrix and a vector, matrix-vector multiply.\<close>

definition Vector_mul_matrix :: "Matrix \<Rightarrow> Vector \<Rightarrow> Vector" where
  "Vector_mul_matrix A v = map (\<lambda>r. dot r v) A"

text \<open>Modelled from the spec: \<open>Matrix::dotRow\<close>, row-indexed dot product.\<close>

definition Matrix_dotRow :: "Matrix \<Rightarrow> Vector \<Rightarrow> int \<Rightarrow> error + real" where
  "Matrix_dotRow A v i = (if in_range A i then Inr (dot (A ! nat i) v) else Inl OutOfBounds)"

text \<open>Modelled from the spec: \<open>Matrix::addRow\<close>, scaled accumulation of a vector into a row.\<close>

definition Matrix_addRow :: "Matrix \<Rightarrow> Vector \<Rightarrow> int \<Rightarrow> real \<Rightarrow> error + Matrix" where
  "Matrix_addRow A v i a =
     (if in_range A i then Inr (A[nat i := map2 (\<lambda>x y. x + a * y) (A ! nat i) v])
      else Inl OutOfBounds)"

subsection \<open>\<open>Model::getNegative\<close>\<close>

text \<open>
  The \<open>do ... while\<close> loop: read the table at the cursor, move the cursor on modulo the
  size of the table, and start again when the entry is the target. The loop need not
  end: not returning is \<open>None\<close>.
\<close>

partial_function (option) getNegative :: "Model \<Rightarrow> int \<Rightarrow> (error + int \<times> Model) option" where
  "getNegative m target =
     (if \<not> negpos m < length (negatives m) then Some (Inl OutOfBounds)
      else
        let negative = negatives m ! negpos m;
            m' = m\<lparr>negpos := (negpos m + 1) mod length (negatives m)\<rparr>
        in if target = negative then getNegative m' target else Some (Inr (negative, m')))"

declare getNegative.simps [code]

subsection \<open>\<open>Model::initTableNegatives\<close>\<close>



subsection \<open>The scoring strategies\<close>

definition binaryLogistic :: "Env \<Rightarrow> Model \<Rightarrow> int \<Rightarrow> bool \<Rightarrow> error + real \<times> Model" where
  "binaryLogistic env m target label =
     (case Matrix_dotRow (wo m) (hidden m) target of
        Inl e \<Rightarrow> Inl e
      | Inr d \<Rightarrow>
         let score = utils_sigmoid env d;
             alpha = lr m * ((if label then 1 else 0) - score)
         in (case Vector_addRow_scaled (grad m) (wo m) target alpha of
               Inl e \<Rightarrow> Inl e
             | Inr g \<Rightarrow>
                (case Matrix_addRow (wo m) (hidden m) target alpha of
                   Inl e \<Rightarrow> Inl e
                 | Inr w \<Rightarrow>
                     Inr (if label then - utils_log env score else - utils_log env (1 - score),
                          m\<lparr>wo := w, grad := g\<rparr>))))"

text \<open>The loop of \<open>negativeSampling\<close> over \<open>n = 0, ..., args.neg\<close>; the state is the loss and the model.\<close>

fun negativeSampling_loop ::
  "Env \<Rightarrow> int \<Rightarrow> nat list \<Rightarrow> real \<times> Model \<Rightarrow> (error + real \<times> Model) option" where
  "negativeSampling_loop env target [] s = Some (Inr s)"
| "negativeSampling_loop env target (n # ns) s =
     (if n = 0 then
        (case binaryLogistic env (snd s) target True of
           Inl e \<Rightarrow> Some (Inl e)
         | Inr (l, m') \<Rightarrow> negativeSampling_loop env target ns (fst s + l, m'))
      else
        (case getNegative (snd s) target of
           None \<Rightarrow> None
         | Some (Inl e) \<Rightarrow> Some (Inl e)
         | Some (Inr (negative, m1)) \<Rightarrow>
            (case binaryLogistic env m1 negative False of
               Inl e \<Rightarrow> Some (Inl e)
             | Inr (l, m') \<Rightarrow> negativeSampling_loop env target ns (fst s + l, m'))))"

definition negativeSampling :: "Env \<Rightarrow> Model \<Rightarrow> int \<Rightarrow> (error + real \<times> Model) option" where
  "negativeSampling env m target =
     negativeSampling_loop env target [0..<nat (neg (args env) + 1)]
       (0, m\<lparr>grad := Vector_zero (grad m)\<rparr>)"

definition hierarchicalSoftmax :: "Env \<Rightarrow> Model \<Rightarrow> int \<Rightarrow> error + real \<times> Model" where
  "hierarchicalSoftmax env m target =
     (if \<not> in_range (codes m) target \<or> \<not> in_range (paths m) target then Inl OutOfBounds
      else
        let binaryCode = codes m ! nat target;
            pathToRoot = paths m ! nat target
        in for_loop [0..<length pathToRoot]
             (\<lambda>i s. if \<not> i < length binaryCode then Inl OutOfBounds
                else (case binaryLogistic env (snd s) (pathToRoot ! i) (binaryCode ! i) of
                        Inl e \<Rightarrow> Inl e
                      | Inr (l, m') \<Rightarrow> Inr (fst s + l, m')))
             (0, m\<lparr>grad := Vector_zero (grad m)\<rparr>))"

text \<open>
  The three loops of \<open>softmax\<close> over the classes: the maximum, the exponentials with
  their sum \<open>z\<close>, and the normalisation with the update of \<open>grad_\<close> and of the row \<open>i\<close> of
  \<open>wo_\<close>.
\<close>

definition softmax_max :: "Vector \<Rightarrow> nat \<Rightarrow> real" where
  "softmax_max out n = fold (\<lambda>i mx. max (out ! i) mx) [0..<n] (out ! 0)"

definition softmax_exp :: "Vector \<Rightarrow> nat \<Rightarrow> real \<Rightarrow> Vector \<times> real" where
  "softmax_exp out n mx =
     fold (\<lambda>i s. let e = exp (fst s ! i - mx) in ((fst s)[i := e], snd s + e)) [0..<n] (out, 0)"

definition softmax_step :: "int \<Rightarrow> real \<Rightarrow> nat \<Rightarrow> Model \<Rightarrow> error + Model" where
  "softmax_step target z i m =
     (let label = (if int i = target then 1 else 0);
          p = output m ! i / z;
          m1 = m\<lparr>output := (output m)[i := p]\<rparr>;
          alpha = lr m1 * (label - p)
      in (case Vector_addRow_scaled (grad m1) (wo m1) (int i) alpha of
            Inl e \<Rightarrow> Inl e
          | Inr g \<Rightarrow>
             (case Matrix_addRow (wo m1) (hidden m1) (int i) alpha of
                Inl e \<Rightarrow> Inl e
              | Inr w \<Rightarrow> Inr (m1\<lparr>wo := w, grad := g\<rparr>))))"

definition softmax :: "Env \<Rightarrow> Model \<Rightarrow> int \<Rightarrow> error + real \<times> Model" where
  "softmax env m target =
     (let m1 = m\<lparr>output := Vector_mul_matrix (wo m) (hidden m), grad := Vector_zero (grad m)\<rparr>;
          n = nat (osz m1)
      in if output m1 = [] \<or> length (output m1) < n then Inl OutOfBounds
         else
           let mx = softmax_max (output m1) n;
               ez = softmax_exp (output m1) n mx;
               m2 = m1\<lparr>output := fst ez\<rparr>
           in (case for_loop [0..<n] (softmax_step target (snd ez)) m2 of
                 Inl e \<Rightarrow> Inl e
               | Inr m3 \<Rightarrow>
                   if in_range (output m3) target
                   then Inr (- utils_log env (output m3 ! nat target), m3)
                   else Inl OutOfBounds))"

subsection \<open>\<open>Model::computeHidden\<close> and \<open>Model::update\<close>\<close>

text \<open>The loop \<open>hidden_.addRow(wi_, *it)\<close> over the input.\<close>

fun add_rows :: "Vector \<Rightarrow> Matrix \<Rightarrow> int list \<Rightarrow> error + Vector" where
  "add_rows h A [] = Inr h"
| "add_rows h A (it # its) =
     (case Vector_addRow h A it of Inl e \<Rightarrow> Inl e | Inr h' \<Rightarrow> add_rows h' A its)"


text \<open>The last loop of \<open>update\<close>: \<open>wi_.addRow(grad_, *it, 1.0)\<close> over the input.\<close>

fun propagate :: "Matrix \<Rightarrow> Vector \<Rightarrow> int list \<Rightarrow> error + Matrix" where
  "propagate A g [] = Inr A"
| "propagate A g (it # its) =
     (case Matrix_addRow A g it 1 of Inl e \<Rightarrow> Inl e | Inr A' \<Rightarrow> propagate A' g its)"

definition update :: "Env \<Rightarrow> Model \<Rightarrow> int list \<Rightarrow> int \<Rightarrow> (error + real \<times> Model) option" where
  "update env m input target =
     (if \<not> 0 \<le> target \<or> \<not> target < osz m then Some (Inl AssertionFailed)
      else if length input = 0 then Some (Inr (0, m))
      else
        (case add_rows (Vector_zero (hidden m)) (wi m) input of
           Inl e \<Rightarrow> Some (Inl e)
         | Inr h \<Rightarrow>
            let m1 = m\<lparr>hidden := Vector_mul h (1 / real (length input))\<rparr>
            in (case (if loss (args env) = loss_ns then negativeSampling env m1 target
                      else if loss (args env) = loss_hs
                        then Some (hierarchicalSoftmax env m1 target)
                        else Some (softmax env m1 target)) of
                  None \<Rightarrow> None
                | Some (Inl e) \<Rightarrow> Some (Inl e)
                | Some (Inr (l, m2)) \<Rightarrow>
                   let m3 = (if model (args env) = model_sup
                             then m2\<lparr>grad := Vector_mul (grad m2) (1 / real (length input))\<rparr>
                             else m2)
                   in (case propagate (wi m3) (grad m3) input of
                         Inl e \<Rightarrow> Some (Inl e)
                       | Inr w \<Rightarrow> Some (Inr (l, m3\<lparr>wi := w\<rparr>))))))"

subsection \<open>\<open>Model::predict\<close>, \<open>Model::findKBest\<close> and \<open>Model::dfs\<close>\<close>









subsection \<open>An instance of the parameters\<close>

text \<open>
  One environment to run the model in: the exact sigmoid and natural logarithm, the
  table size of ten million, a shuffle that leaves the table as it is, and heap functions
  that keep the vector in ascending order of score, which is one way to keep it a heap
  for \<open>comparePairs\<close>.
\<close>

definition exact_env :: "Args \<Rightarrow> Env" where
  "exact_env a =
     \<lparr>args = a,
      utils_sigmoid = (\<lambda>x. 1 / (1 + exp (- x))),
      utils_log = ln,
      NEGATIVE_TABLE_SIZE = 10000000,
      shuffle = (\<lambda>negs. negs),
      push_heap = (\<lambda>h. sort_key fst h),
      pop_heap = (\<lambda>h. case h of [] \<Rightarrow> [] | x # xs \<Rightarrow> sort_key fst xs @ [x]),
      sort_heap = (\<lambda>h. rev (sort_key fst h))\<rparr>"

section \<open>Specifications and invariants of the tree\<close>










section \<open>Specifications of the trainer and the ranker\<close>

text \<open>The choice of the scoring strategy in \<open>update\<close>, by \<open>args.loss\<close>.\<close>

definition scoring :: "Env \<Rightarrow> Model \<Rightarrow> int \<Rightarrow> (error + real \<times> Model) option" where
  "scoring env m target =
     (if loss (args env) = loss_ns then negativeSampling env m target
      else if loss (args env) = loss_hs then Some (hierarchicalSoftmax env m target)
      else Some (softmax env m target))"





section \<open>The tree built by \<open>buildTree\<close>\<close>




































section \<open>The tree of the frequency table 1, 1, 2, 4\<close>

text \<open>
  C9, as stated, fails: on the table \<open>[1, 1, 2, 4]\<close> the first internal node joins the
  leaves 3 and 2, the second the leaves 1 and 0, and the root joins the two: every class
  has a code of two bits, so class 3 does not have the strictly shortest code.
\<close>

theorem buildTree_ascending_counterexample:
  "buildTree (fresh 4) [1, 1, 2, 4] =
     Some (Inr \<lparr>osz = 4,
       tree =
        [\<lparr>parent = 5, left = -1, right = -1, count = 1, binary = True\<rparr>,
         \<lparr>parent = 5, left = -1, right = -1, count = 1, binary = False\<rparr>,
         \<lparr>parent = 4, left = -1, right = -1, count = 2, binary = True\<rparr>,
         \<lparr>parent = 4, left = -1, right = -1, count = 4, binary = False\<rparr>,
         \<lparr>parent = 6, left = 3, right = 2, count = 6, binary = False\<rparr>,
         \<lparr>parent = 6, left = 1, right = 0, count = 2, binary = True\<rparr>,
         \<lparr>parent = -1, left = 4, right = 5, count = 8, binary = False\<rparr>],
       paths = [[1, 2], [1, 2], [0, 2], [0, 2]],
       codes = [[True, True], [False, True], [True, False], [False, False]]\<rparr>)"
  by code_simp

text \<open>
  C9, amended: the cursor over the leaves starts at the highest index, so the table has
  to be in non-increasing order for the least frequent classes to be joined first. On
  \<open>[4, 2, 1, 1]\<close> class 0 (weight 4) has the strictly shortest code, one bit, class 1 has
  two bits and the classes 2 and 3 (weight 1) have the longest codes, three bits; on
  \<open>[1, 1, 2, 4]\<close> every class has a code of two bits.
\<close>

theorem buildTree_code_lengths:
  "(case buildTree (fresh 4) [4, 2, 1, 1] of
      Some (Inr m) \<Rightarrow> map length (codes m) = [1, 2, 3, 3] \<and> map length (paths m) = [1, 2, 3, 3]
    | _ \<Rightarrow> False) \<and>
   (case buildTree (fresh 4) [1, 1, 2, 4] of
      Some (Inr m) \<Rightarrow> map length (codes m) = [2, 2, 2, 2] \<and> map length (paths m) = [2, 2, 2, 2]
    | _ \<Rightarrow> False)"
  by code_simp

section \<open>Drawing a negative\<close>

lemma getNegative_found:
  assumes "negpos m < length (negatives m)"
    and "negatives m ! ((negpos m + r) mod length (negatives m)) \<noteq> target"
    and "\<forall>k<r. negatives m ! ((negpos m + k) mod length (negatives m)) = target"
  shows "getNegative m target =
     Some (Inr (negatives m ! ((negpos m + r) mod length (negatives m)),
                m\<lparr>negpos := (negpos m + r + 1) mod length (negatives m)\<rparr>))"
  using assms
proof (induction r arbitrary: m)
  case 0
  then show ?case by (subst getNegative.simps) (simp add: Let_def)
next
  case (Suc r)
  define n where "n = length (negatives m)"
  define m' where "m' = m\<lparr>negpos := (negpos m + 1) mod n\<rparr>"
  have n: "0 < n" using Suc.prems(1) by (auto simp: n_def)
  have hit: "negatives m ! negpos m = target"
    using Suc.prems(1) Suc.prems(3) [rule_format, of 0] by simp
  have step: "getNegative m target = getNegative m' target"
    using Suc.prems(1) hit by (subst getNegative.simps) (simp add: Let_def m'_def n_def)
  have s: "(negpos m' + k) mod n = (negpos m + Suc k) mod n" for k
    by (simp add: m'_def mod_add_left_eq)
  have "getNegative m' target =
     Some (Inr (negatives m' ! ((negpos m' + r) mod length (negatives m')),
                m'\<lparr>negpos := (negpos m' + r + 1) mod length (negatives m')\<rparr>))"
  proof (rule Suc.IH)
    show "negpos m' < length (negatives m')" using n by (simp add: m'_def n_def)
    show "negatives m' ! ((negpos m' + r) mod length (negatives m')) \<noteq> target"
      using Suc.prems(2) s [of r] by (simp add: m'_def n_def)
    show "\<forall>k<r. negatives m' ! ((negpos m' + k) mod length (negatives m')) = target"
    proof (intro allI impI)
      fix k assume "k < r"
      then have "negatives m ! ((negpos m + Suc k) mod n) = target"
        using Suc.prems(3) [rule_format, of "Suc k"] by (simp add: n_def)
      then show "negatives m' ! ((negpos m' + k) mod length (negatives m')) = target"
        using s [of k] by (simp add: m'_def n_def)
    qed
  qed
  then show ?case
    using step s [of r] s [of "Suc r"] by (simp add: m'_def n_def)
qed


lemma getNegative_stuck:
  assumes "getNegative m target = Some y"
  shows "\<not> (negpos m < length (negatives m) \<and> (\<forall>x\<in>set (negatives m). x = target))"
proof (rule getNegative.raw_induct
    [where P = "\<lambda>m target y. \<not> (negpos m < length (negatives m) \<and> (\<forall>x\<in>set (negatives m). x = target))",
     OF _ assms])
  fix f :: "Model \<Rightarrow> int \<Rightarrow> (error + int \<times> Model) option" and m target y
  assume IH: "\<And>m target y. f m target = Some y \<Longrightarrow>
      \<not> (negpos m < length (negatives m) \<and> (\<forall>x\<in>set (negatives m). x = target))"
    and body: "(if \<not> negpos m < length (negatives m) then Some (Inl OutOfBounds)
      else let negative = negatives m ! negpos m;
               m' = m\<lparr>negpos := (negpos m + 1) mod length (negatives m)\<rparr>
           in if target = negative then f m' target else Some (Inr (negative, m'))) = Some y"
  show "\<not> (negpos m < length (negatives m) \<and> (\<forall>x\<in>set (negatives m). x = target))"
  proof
    assume a: "negpos m < length (negatives m) \<and> (\<forall>x\<in>set (negatives m). x = target)"
    define m' where "m' = m\<lparr>negpos := (negpos m + 1) mod length (negatives m)\<rparr>"
    have lt: "negpos m < length (negatives m)" using a by simp
    then have "negatives m ! negpos m \<in> set (negatives m)" by simp
    then have hit: "(target = negatives m ! negpos m) = True" using a by auto
    have "f m' target = Some y"
      using body lt unfolding Let_def hit m'_def by simp
    moreover have "0 < length (negatives m)" using lt by auto
    ultimately show False using IH [of m' target y] a by (simp add: m'_def)
  qed
qed

text \<open>
  C6: with the cursor inside the table (the constructor sets it to 0 and \<open>getNegative\<close>
  keeps it below the size of the table), a call of \<open>getNegative\<close> on a table that holds
  a class other than the target returns: it has rejected \<open>r\<close> entries equal to the target,
  one after the other from the cursor on modulo the size of the table, returns the next
  entry, which is not the target, and leaves the cursor one past it, modulo the size. On
  a table whose every entry is the target the loop does not return.
\<close>

theorem getNegative_returns:
  assumes "negpos m < length (negatives m)"
  shows "((\<exists>x\<in>set (negatives m). x \<noteq> target) \<longrightarrow>
           (\<exists>r<length (negatives m).
              getNegative m target =
                Some (Inr (negatives m ! ((negpos m + r) mod length (negatives m)),
                           m\<lparr>negpos := (negpos m + r + 1) mod length (negatives m)\<rparr>)) \<and>
              negatives m ! ((negpos m + r) mod length (negatives m)) \<noteq> target \<and>
              (\<forall>k<r. negatives m ! ((negpos m + k) mod length (negatives m)) = target))) \<and>
         ((\<forall>x\<in>set (negatives m). x = target) \<longrightarrow> getNegative m target = None)"
proof (intro conjI impI)
  define n where "n = length (negatives m)"
  assume "\<exists>x\<in>set (negatives m). x \<noteq> target"
  then obtain i where i: "i < n" "negatives m ! i \<noteq> target"
    by (auto simp: in_set_conv_nth n_def)
  define Q where "Q r \<longleftrightarrow> negatives m ! ((negpos m + r) mod n) \<noteq> target" for r
  have "(negpos m + (i + n - negpos m)) mod n = i" using i(1) assms by (simp add: n_def)
  then have ex: "Q (i + n - negpos m)" using i(2) by (simp add: Q_def)
  define r where "r = (LEAST r. Q r)"
  have Qr: "Q r" unfolding r_def using ex by (rule LeastI)
  have least: "\<not> Q k" if "k < r" for k using that not_less_Least unfolding r_def by blast
  have "r < n"
  proof (rule ccontr)
    assume "\<not> r < n"
    then have "r - n < r" "(negpos m + (r - n)) mod n = (negpos m + r) mod n"
      using i(1) by (simp_all add: mod_if le_mod_geq)
    then show False using least [of "r - n"] Qr by (simp add: Q_def)
  qed
  moreover have "getNegative m target =
     Some (Inr (negatives m ! ((negpos m + r) mod length (negatives m)),
                m\<lparr>negpos := (negpos m + r + 1) mod length (negatives m)\<rparr>))"
    using assms Qr least by (intro getNegative_found) (simp_all add: Q_def n_def)
  ultimately show "\<exists>r<length (negatives m).
              getNegative m target =
                Some (Inr (negatives m ! ((negpos m + r) mod length (negatives m)),
                           m\<lparr>negpos := (negpos m + r + 1) mod length (negatives m)\<rparr>)) \<and>
              negatives m ! ((negpos m + r) mod length (negatives m)) \<noteq> target \<and>
              (\<forall>k<r. negatives m ! ((negpos m + k) mod length (negatives m)) = target)"
    using Qr least unfolding Q_def n_def by blast
next
  assume "\<forall>x\<in>set (negatives m). x = target"
  then show "getNegative m target = None"
    using getNegative_stuck [of m target] assms by (cases "getNegative m target") auto
qed

text \<open>
  The theorem on the table \<open>[0, 0, 1]\<close> with the target 0, where two entries are rejected
  and the cursor comes back to 0, and on the table \<open>[0, 0]\<close>, where the loop does not
  return.
\<close>

theorem getNegative_returns_witness:
  "getNegative ((Model_new [] [] 0 0)\<lparr>negatives := [0, 0, 1]\<rparr>) 0 =
     Some (Inr (1, (Model_new [] [] 0 0)\<lparr>negatives := [0, 0, 1]\<rparr>)) \<and>
   getNegative ((Model_new [] [] 0 0)\<lparr>negatives := [0, 0]\<rparr>) 0 = None"
proof
  define M where "M = (Model_new [] [] 0 0)\<lparr>negatives := [0, 0, 1]\<rparr>"
  have M: "negatives M = [0, 0, 1]" "negpos M = 0" by (simp_all add: M_def Model_new_def)
  have p: "negpos M < length (negatives M)" by (simp add: M)
  have e: "\<exists>x\<in>set (negatives M). x \<noteq> 0" by (simp add: M)
  from getNegative_returns [OF p, of 0, THEN conjunct1, rule_format, OF e]
  obtain r where r: "r < length (negatives M)"
    "getNegative M 0 =
       Some (Inr (negatives M ! ((negpos M + r) mod length (negatives M)),
                  M\<lparr>negpos := (negpos M + r + 1) mod length (negatives M)\<rparr>))"
    "negatives M ! ((negpos M + r) mod length (negatives M)) \<noteq> 0"
    by (elim exE conjE) (rule that)
  have "r = 0 \<or> r = 1 \<or> r = 2" using r(1) unfolding M by simp linarith
  moreover have "r \<noteq> 0"
  proof
    assume "r = 0"
    then show False using r(3) unfolding M by simp
  qed
  moreover have "r \<noteq> 1"
  proof
    assume "r = 1"
    then show False using r(3) unfolding M by simp
  qed
  ultimately have "r = 2" by simp
  then have "getNegative M 0 = Some (Inr (1, M\<lparr>negpos := 0\<rparr>))"
    using r(2) unfolding M by simp
  moreover have "M\<lparr>negpos := 0\<rparr> = M" by (simp add: M_def Model_new_def)
  ultimately show "getNegative ((Model_new [] [] 0 0)\<lparr>negatives := [0, 0, 1]\<rparr>) 0 =
     Some (Inr (1, (Model_new [] [] 0 0)\<lparr>negatives := [0, 0, 1]\<rparr>))"
    unfolding M_def by simp
next
  define M where "M = (Model_new [] [] 0 0)\<lparr>negatives := [0, 0]\<rparr>"
  have M: "negatives M = [0, 0]" "negpos M = 0" by (simp_all add: M_def Model_new_def)
  have p: "negpos M < length (negatives M)" by (simp add: M)
  have e: "\<forall>x\<in>set (negatives M). x = 0" by (simp add: M)
  from getNegative_returns [OF p, of 0, THEN conjunct2, THEN mp, OF e]
  show "getNegative ((Model_new [] [] 0 0)\<lparr>negatives := [0, 0]\<rparr>) 0 = None"
    unfolding M_def .
qed

section \<open>The trainer\<close>

text \<open>
  C7: for every valid target, \<open>update\<close> on an empty input returns the loss 0 and the
  model as it was: the input table, the output table, the cursor of the negative table
  and every other member are unchanged.
\<close>

theorem update_empty_input:
  assumes "0 \<le> target" and "target < osz m"
  shows "update env m [] target = Some (Inr (0, m))"
  using assms by (simp add: update_def)

text \<open>The theorem on a model with one class and one input row.\<close>

theorem update_empty_input_witness:
  "update (exact_env \<lparr>loss = loss_ns, model = model_sup, neg = 5\<rparr>)
     (Model_new [[1]] [[1]] 1 1) [] 0 = Some (Inr (0, Model_new [[1]] [[1]] 1 1))"
  using update_empty_input [of 0 "Model_new [[1]] [[1]] 1 1"
      "exact_env \<lparr>loss = loss_ns, model = model_sup, neg = 5\<rparr>"]
  by (simp add: Model_new_def)



lemma binaryLogistic_model [simp]:
  "binaryLogistic (env\<lparr>args := (args env)\<lparr>model := x\<rparr>\<rparr>) = binaryLogistic env"
  by (intro ext) (simp add: binaryLogistic_def Let_def split: sum.splits)

lemma negativeSampling_loop_model [simp]:
  "negativeSampling_loop (env\<lparr>args := (args env)\<lparr>model := x\<rparr>\<rparr>) target ns s =
   negativeSampling_loop env target ns s"
  by (induction ns arbitrary: s) (simp_all split: sum.splits option.splits prod.splits)

lemma scoring_model [simp]:
  "negativeSampling (env\<lparr>args := (args env)\<lparr>model := x\<rparr>\<rparr>) = negativeSampling env"
  "hierarchicalSoftmax (env\<lparr>args := (args env)\<lparr>model := x\<rparr>\<rparr>) = hierarchicalSoftmax env"
  "softmax (env\<lparr>args := (args env)\<lparr>model := x\<rparr>\<rparr>) = softmax env"
  by (intro ext, simp add: negativeSampling_def hierarchicalSoftmax_def softmax_def Let_def
      split: sum.splits cong: if_cong)+









lemma scoring_model_sup [simp]:
  "scoring (env\<lparr>args := (args env)\<lparr>model := x\<rparr>\<rparr>) = scoring env"
  by (intro ext) (simp add: scoring_def)






section \<open>The ranker\<close>















section \<open>The table of negatives\<close>















section \<open>The full softmax in exact arithmetic\<close>

lemma softmax_max_shift:
  assumes "out \<noteq> []" and "n \<le> length out"
  shows "softmax_max (map (\<lambda>x. x + c) out) n = softmax_max out n + c"
  using assms(2)
proof (induction n)
  case 0
  then show ?case using assms(1) by (cases out) (simp_all add: softmax_max_def)
next
  case (Suc n)
  have "softmax_max (map (\<lambda>x. x + c) out) (Suc n) =
      max (map (\<lambda>x. x + c) out ! n) (softmax_max (map (\<lambda>x. x + c) out) n)"
    by (simp add: softmax_max_def)
  then show ?case using Suc by (simp add: softmax_max_def max_def)
qed

lemma softmax_exp_eq:
  "n \<le> length out \<Longrightarrow>
   softmax_exp out n mx =
     (map (\<lambda>x. exp (x - mx)) (take n out) @ drop n out, \<Sum>x\<leftarrow>take n out. exp (x - mx))"
proof (induction n)
  case 0
  then show ?case by (simp add: softmax_exp_def)
next
  case (Suc n)
  define s where "s = softmax_exp out n mx"
  have s: "s = (map (\<lambda>x. exp (x - mx)) (take n out) @ drop n out, \<Sum>x\<leftarrow>take n out. exp (x - mx))"
    using Suc by (simp add: s_def)
  have n: "n < length out" using Suc.prems by simp
  have step: "softmax_exp out (Suc n) mx =
      ((fst s)[n := exp (fst s ! n - mx)], snd s + exp (fst s ! n - mx))"
    by (simp add: softmax_exp_def s_def Let_def)
  have a: "fst s ! n = out ! n" using n by (simp add: s nth_append)
  have b: "(fst s)[n := exp (out ! n - mx)] =
      map (\<lambda>x. exp (x - mx)) (take (Suc n) out) @ drop (Suc n) out"
    using n by (simp add: s list_update_append take_Suc_conv_app_nth
        upd_conv_take_nth_drop [of 0 "drop n out", simplified] Cons_nth_drop_Suc [symmetric])
  show ?case unfolding step a b using n by (simp add: s take_Suc_conv_app_nth)
qed


text \<open>
  Adding a constant to every raw score adds it to the maximum and leaves the exponentials
  and their sum as they were.
\<close>

lemma softmax_exp_shift:
  assumes "out \<noteq> []"
  shows "softmax_exp (map (\<lambda>x. x + c) out) (length out)
           (softmax_max (map (\<lambda>x. x + c) out) (length out)) =
         softmax_exp out (length out) (softmax_max out (length out))"
  using softmax_max_shift [OF assms, of "length out" c]
  by (simp add: softmax_exp_eq comp_def)

lemma softmax_step_output:
  "softmax_step target z i m = Inr m1 \<Longrightarrow> output m1 = (output m)[i := output m ! i / z]"
  by (auto simp: softmax_step_def Let_def split: sum.splits)

lemma softmax_loop_output:
  "for_loop [j..<n] (softmax_step target z) m = Inr m' \<Longrightarrow> n \<le> length (output m) \<Longrightarrow>
   length (output m') = length (output m) \<and>
   (\<forall>i<length (output m).
      output m' ! i = (if j \<le> i \<and> i < n then output m ! i / z else output m ! i))"
proof (induction "n - j" arbitrary: j m)
  case 0
  then show ?case by simp
next
  case (Suc d)
  then have j: "j < n" by simp
  then obtain m1 where s: "softmax_step target z j m = Inr m1"
    "for_loop [Suc j..<n] (softmax_step target z) m1 = Inr m'"
    using Suc.prems(1) by (auto simp: upt_conv_Cons split: sum.splits)
  have o1: "output m1 = (output m)[j := output m ! j / z]" using s(1) by (rule softmax_step_output)
  have "d = n - Suc j" using Suc.hyps(2) by simp
  from Suc.hyps(1) [OF this s(2)] Suc.prems(2)
  have r: "length (output m') = length (output m1)"
    "\<forall>i<length (output m1).
      output m' ! i = (if Suc j \<le> i \<and> i < n then output m1 ! i / z else output m1 ! i)"
    by (simp_all add: o1)
  have "output m' ! i = (if j \<le> i \<and> i < n then output m ! i / z else output m ! i)"
    if i: "i < length (output m)" for i
  proof (cases "i = j")
    case True
    then show ?thesis using r(2) i j by (simp add: o1)
  next
    case False
    then have "(Suc j \<le> i) = (j \<le> i)" by auto
    then show ?thesis using r(2) i False by (simp add: o1)
  qed
  then show ?case using r(1) by (simp add: o1)
qed

text \<open>
  In exact arithmetic the outputs that \<open>softmax\<close> leaves are positive and sum to 1. The
  source computes them in floating point, where this holds up to rounding only.
\<close>

lemma softmax_sums_to_one:
  assumes "softmax env m target = Inr (l, m')" and "osz m = int (length (wo m))"
  shows "sum_list (output m') = 1 \<and> (\<forall>p\<in>set (output m'). 0 < p)"
proof -
  define S where "S = Vector_mul_matrix (wo m) (hidden m)"
  define n where "n = length S"
  define mx where "mx = softmax_max S n"
  define E where "E = map (\<lambda>x. exp (x - mx)) S"
  define z where "z = sum_list E"
  have nn: "nat (osz m) = n" using assms(2) by (simp add: n_def S_def Vector_mul_matrix_def)
  have ne: "S \<noteq> []" using assms(1) by (auto simp: softmax_def Let_def S_def split: if_splits)
  have ez: "softmax_exp S n mx = (E, z)" by (simp add: softmax_exp_eq n_def E_def z_def)
  obtain m2 where l: "for_loop [0..<n] (softmax_step target z) m2 = Inr m'" and o2: "output m2 = E"
    using assms(1) nn ez ne unfolding softmax_def Let_def S_def [symmetric]
    by (auto simp: mx_def split: if_splits sum.splits)
  have len: "length E = n" by (simp add: E_def n_def)
  from softmax_loop_output [OF l] len
  have "length (output m') = length E"
    "\<forall>i<length E. output m' ! i = E ! i / z"
    by (simp_all add: o2)
  then have o: "output m' = map (\<lambda>x. x / z) E"
    by (intro nth_equalityI) simp_all
  have Epos: "\<forall>x\<in>set E. 0 < x" by (simp add: E_def)
  obtain x xs where "E = x # xs" using ne by (cases E) (auto simp: E_def)
  then have "0 < x" "\<And>y. y \<in> set xs \<Longrightarrow> 0 \<le> y" using Epos by auto
  then have "0 < x" "0 \<le> sum_list xs" by (simp_all add: sum_list_nonneg)
  then have zpos: "0 < z" using \<open>E = x # xs\<close> by (simp add: z_def)
  have "sum_list (output m') = sum_list E / z"
    unfolding o by (simp add: sum_list_const_mult divide_inverse sum_list_mult_const)
  then show ?thesis using zpos Epos by (simp add: z_def o)
qed

end
